theory Spec2Isabelle
  imports Main "HOL-Library.Sublist"
begin

section \<open>App Store Server API client (store.go): a shallow embedding\<close>

subsection \<open>Go errors\<close>

text \<open>
  A Go \<^verbatim>\<open>error\<close> value. \<open>EOF\<close> and \<open>ErrUnexpectedEOF\<close> are the sentinels of
  package \<^verbatim>\<open>io\<close>; \<open>Errorf m\<close> is an error that carries a message and wraps
  nothing (\<^verbatim>\<open>fmt.Errorf\<close> without \<^verbatim>\<open>%w\<close>, \<^verbatim>\<open>errors.New\<close>, an
  opaque library error); \<open>Wrapf m e\<close> is an error with a message whose
  \<^verbatim>\<open>Unwrap\<close> yields \<open>e\<close> (\<^verbatim>\<open>fmt.Errorf\<close> with \<^verbatim>\<open>%w\<close>, or a library
  error such as \<^verbatim>\<open>*url.Error\<close>); \<open>APIError code message\<close> is the typed error of
  the API's error envelope. The nil error is \<open>None :: error option\<close>.
\<close>

datatype error =
    EOF
  | ErrUnexpectedEOF
  | Errorf string
  | Wrapf string error
  | APIError int string

text \<open>
  \<^verbatim>\<open>errors.Is(err, target)\<close> for a sentinel target: compare, then unwrap, until
  the chain ends. A nil \<^verbatim>\<open>err\<close> matches no sentinel.
\<close>

fun Is_from :: "error \<Rightarrow> error \<Rightarrow> bool" where
  "Is_from (Wrapf m e) target = (Wrapf m e = target \<or> Is_from e target)"
| "Is_from e target = (e = target)"

definition errors_Is :: "error option \<Rightarrow> error \<Rightarrow> bool" where
  "errors_Is err target = (case err of None \<Rightarrow> False | Some e \<Rightarrow> Is_from e target)"

text \<open>The errors reached from an error by repeated unwrapping, itself first.\<close>

fun unwrap_chain :: "error \<Rightarrow> error list" where
  "unwrap_chain (Wrapf m e) = Wrapf m e # unwrap_chain e"
| "unwrap_chain e = [e]"

subsection \<open>The retry predicate of \<^verbatim>\<open>httpClient\<close>\<close>

definition StatusUnauthorized :: int where
  "StatusUnauthorized = 401"

definition StatusOK :: int where
  "StatusOK = 200"

text \<open>
  The function literal handed to \<^verbatim>\<open>SetRetry\<close> in \<^verbatim>\<open>httpClient\<close>
  (store.go, lines 103 to 115): its first argument is compared with
  \<^verbatim>\<open>http.StatusUnauthorized\<close>, its second is the error of the attempt.
\<close>

definition shouldRetry :: "int \<Rightarrow> error option \<Rightarrow> bool" where
  "shouldRetry i err =
     (if i = StatusUnauthorized then True
      else if errors_Is err ErrUnexpectedEOF then True
      else if errors_Is err EOF then True
      else False)"

subsection \<open>Strings\<close>

text \<open>
  \<^verbatim>\<open>strings.Split(s, sep)\<close> for a separator of one byte: the pieces between the
  separators, so one piece more than there are separators (the empty string gives one
  empty piece).
\<close>

fun strings_Split :: "string \<Rightarrow> char \<Rightarrow> string list" where
  "strings_Split [] sep = [[]]"
| "strings_Split (c # cs) sep =
     (if c = sep then [] # strings_Split cs sep
      else (case strings_Split cs sep of
              [] \<Rightarrow> [[c]]
            | p # ps \<Rightarrow> (c # p) # ps))"

text \<open>\<^verbatim>\<open>strings.Contains(s, substr)\<close>: \<open>substr\<close> starts at some position of \<open>s\<close>.\<close>

fun strings_Contains :: "string \<Rightarrow> string \<Rightarrow> bool" where
  "strings_Contains [] substr = (substr = [])"
| "strings_Contains (c # cs) substr = (prefix substr (c # cs) \<or> strings_Contains cs substr)"

text \<open>
  Indexing a slice, \<^verbatim>\<open>xs[i]\<close>: a run-time panic when the index is out of range.
\<close>

datatype panic = IndexOutOfRange nat nat

definition index :: "'a list \<Rightarrow> nat \<Rightarrow> panic + 'a" where
  "index xs i = (if i < length xs then Inr (xs ! i) else Inl (IndexOutOfRange i (length xs)))"

subsection \<open>Signed payloads\<close>

text \<open>
  The leaf certificate's \<^verbatim>\<open>PublicKey\<close> field has the interface type \<^verbatim>\<open>any\<close>;
  the type assertion of \<^verbatim>\<open>parseJWS\<close> tells an \<^verbatim>\<open>*ecdsa.PublicKey\<close> from every
  other dynamic type. Keys and certificates carry their bytes.
\<close>

datatype PublicKey = ecdsa_PublicKey string | other_PublicKey string

record Certificate =
  Raw :: string
  PublicKey :: PublicKey

text \<open>
  The three targets a payload is decoded into. Their struct declarations are not part
  of store.go; a target holds the fields decoded into it, and the zero value
  (\<^verbatim>\<open>&JWSTransaction{}\<close>, \<^verbatim>\<open>new(NotificationPayload)\<close>) holds none.
\<close>

datatype Claims =
    JWSTransaction "(string \<times> string) list"
  | JWSRenewalInfoDecodedPayload "(string \<times> string) list"
  | NotificationPayload "(string \<times> string) list"

text \<open>
  What \<^verbatim>\<open>parseJWS\<close> and \<^verbatim>\<open>ParseJWSEncodeString\<close> call and store.go does not
  define: the two methods of \<^verbatim>\<open>Cert\<close> (\<^verbatim>\<open>extractCertByIndex\<close>,
  \<^verbatim>\<open>verifyCert\<close>), \<^verbatim>\<open>x509.ParseCertificate\<close>, \<^verbatim>\<open>jwt.ParseWithClaims\<close> and
  \<^verbatim>\<open>base64.RawURLEncoding.DecodeString\<close>. They are parameters.
  \<^verbatim>\<open>jwt.ParseWithClaims\<close> writes into the claims it is given and returns an error
  or nil: it yields the claims as it leaves them, and the error. Its key function
  ignores the token here.
\<close>

record Env =
  extractCertByIndex :: "string \<Rightarrow> nat \<Rightarrow> error + string"
  x509_ParseCertificate :: "string \<Rightarrow> error + Certificate"
  verifyCert :: "Certificate \<Rightarrow> Certificate \<Rightarrow> Certificate \<Rightarrow> error option"
  jwt_ParseWithClaims :: "string \<Rightarrow> Claims \<Rightarrow> (unit \<Rightarrow> error + PublicKey) \<Rightarrow> Claims \<times> error option"
  RawURLEncoding_DecodeString :: "string \<Rightarrow> error + string"

text \<open>
  \<^verbatim>\<open>parseJWS\<close> (store.go, lines 432 to 472): the error it returns, and the claims
  as it leaves them. The claims are touched by \<^verbatim>\<open>jwt.ParseWithClaims\<close> only.
\<close>

definition parseJWS :: "Env \<Rightarrow> string \<Rightarrow> Claims \<Rightarrow> error option \<times> Claims" where
  "parseJWS E jwsEncode claims =
     (case extractCertByIndex E jwsEncode 2 of
        Inl err \<Rightarrow> (Some err, claims)
      | Inr rootCertBytes \<Rightarrow>
     (case x509_ParseCertificate E rootCertBytes of
        Inl err \<Rightarrow> (Some (Errorf ''appstore failed to parse root certificate''), claims)
      | Inr rootCert \<Rightarrow>
     (case extractCertByIndex E jwsEncode 1 of
        Inl err \<Rightarrow> (Some err, claims)
      | Inr intermediaCertBytes \<Rightarrow>
     (case x509_ParseCertificate E intermediaCertBytes of
        Inl err \<Rightarrow> (Some (Errorf ''appstore failed to parse intermediate certificate''), claims)
      | Inr intermediaCert \<Rightarrow>
     (case extractCertByIndex E jwsEncode 0 of
        Inl err \<Rightarrow> (Some err, claims)
      | Inr leafCertBytes \<Rightarrow>
     (case x509_ParseCertificate E leafCertBytes of
        Inl err \<Rightarrow> (Some (Errorf ''appstore failed to parse leaf certificate''), claims)
      | Inr leafCert \<Rightarrow>
     (case verifyCert E rootCert intermediaCert leafCert of
        Some err \<Rightarrow> (Some err, claims)
      | None \<Rightarrow>
     (case PublicKey leafCert of
        other_PublicKey k \<Rightarrow>
          (Some (Errorf ''appstore public key must be of type ecdsa.PublicKey''), claims)
      | ecdsa_PublicKey k \<Rightarrow>
          (case jwt_ParseWithClaims E jwsEncode claims (\<lambda>token. Inr (ecdsa_PublicKey k)) of
             (claims', err) \<Rightarrow> (err, claims'))))))))))"

text \<open>
  \<^verbatim>\<open>ParseSignedTransaction\<close> (lines 474 to 481): the transaction pointer (\<open>None\<close> is
  nil) and the error.
\<close>

definition ParseSignedTransaction :: "Env \<Rightarrow> string \<Rightarrow> Claims option \<times> error option" where
  "ParseSignedTransaction E transaction =
     (case parseJWS E transaction (JWSTransaction []) of
        (Some err, tran) \<Rightarrow> (None, Some err)
      | (None, tran) \<Rightarrow> (Some tran, None))"

text \<open>
  \<^verbatim>\<open>ParseNotificationV2\<close> (lines 379 to 383) calls \<^verbatim>\<open>parseJWS\<close> twice on the same
  target, drops the first error, and returns the target, never nil, with the second
  error.
\<close>

definition ParseNotificationV2 :: "Env \<Rightarrow> string \<Rightarrow> Claims \<times> error option" where
  "ParseNotificationV2 E tokenStr =
     (case parseJWS E tokenStr (NotificationPayload []) of
        (err1, ret1) \<Rightarrow>
          (case parseJWS E tokenStr ret1 of
             (err2, ret2) \<Rightarrow> (ret2, err2)))"

text \<open>
  \<^verbatim>\<open>ParseSignedTransactions\<close> (lines 395 to 405): the loop over the input appends a
  transaction when its parse gave no error and a non-nil pointer; the error returned at
  the end is the literal nil.
\<close>

fun ParseSignedTransactions_loop :: "Env \<Rightarrow> string list \<Rightarrow> Claims list \<Rightarrow> Claims list" where
  "ParseSignedTransactions_loop E [] result = result"
| "ParseSignedTransactions_loop E (v # vs) result =
     (case ParseSignedTransaction E v of
        (Some tran, None) \<Rightarrow> ParseSignedTransactions_loop E vs (result @ [tran])
      | (tran, err) \<Rightarrow> ParseSignedTransactions_loop E vs result)"

definition ParseSignedTransactions :: "Env \<Rightarrow> string list \<Rightarrow> Claims list \<times> error option" where
  "ParseSignedTransactions E transactions = (ParseSignedTransactions_loop E transactions [], None)"

text \<open>
  \<^verbatim>\<open>ParseJWSEncodeString\<close> (lines 408 to 430): \<^verbatim>\<open>parts[1]\<close> panics when the split
  has one piece; otherwise the result is the pair of the value (\<open>None\<close> is the nil
  interface) and the error.
\<close>

definition ParseJWSEncodeString :: "Env \<Rightarrow> string \<Rightarrow> panic + (Claims option \<times> error option)" where
  "ParseJWSEncodeString E jwsEncode =
     (let parts = strings_Split jwsEncode CHR ''.'' in
      case index parts 1 of
        Inl p \<Rightarrow> Inl p
      | Inr part1 \<Rightarrow>
          (case RawURLEncoding_DecodeString E part1 of
             Inl err \<Rightarrow> Inr (None, Some err)
           | Inr payload \<Rightarrow>
               if strings_Contains payload ''transactionId'' then
                 (case parseJWS E jwsEncode (JWSTransaction []) of
                    (err, transaction) \<Rightarrow> Inr (Some transaction, err))
               else if strings_Contains payload ''renewalDate'' then
                 (case parseJWS E jwsEncode (JWSRenewalInfoDecodedPayload []) of
                    (err, renewalInfo) \<Rightarrow> Inr (Some renewalInfo, err))
               else Inr (None, None)))"

subsection \<open>HTTP clients\<close>

text \<open>
  A request as store.go builds it: method, URL, headers, and the body (\<open>None\<close> is the
  nil reader). A response as store.go reads it: the status code, the headers, and what
  \<^verbatim>\<open>io.ReadAll\<close> gives on its body, the data and an error or nil.
\<close>

record 'a Request =
  Method :: string
  URL :: string
  ReqHeader :: "(string \<times> string) list"
  ReqBody :: "'a option"

record 'b Response =
  StatusCode :: int
  Header :: "(string \<times> string) list"
  Body :: "'b \<times> error option"

text \<open>
  An \<^verbatim>\<open>HTTPClient\<close>: \<^verbatim>\<open>Do\<close> takes a request and gives a response or an error.
  The call has effects (the server moves on, a handler writes through a pointer), so it
  takes the world and returns it.
\<close>

type_synonym ('a, 'b, 'w) DoFunc = "'a Request \<Rightarrow> 'w \<Rightarrow> (error + 'b Response) \<times> 'w"

text \<open>
  The world of a pagination call: the state of everything behind the transport, and the
  store of the response structs the call allocates. A pointer is an address of the
  store; \<open>new\<close> allocates a fresh struct holding the given value.
\<close>

record ('s, 'v) World =
  server :: 's
  heap :: "nat \<Rightarrow> 'v"
  next_free :: nat

definition new :: "('s, 'v) World \<Rightarrow> 'v \<Rightarrow> nat \<times> ('s, 'v) World" where
  "new w v = (next_free w, w\<lparr>heap := (heap w)(next_free w := v), next_free := Suc (next_free w)\<rparr>)"

text \<open>
  Modelled from the spec: \<^verbatim>\<open>SetResponseBodyHandler\<close> is not in store.go. The spec
  (4.5): a body decoder decorator decodes the response body into a typed destination,
  else fails with \<^verbatim>\<open>ResponseDecodeError\<close>. The decorated client calls the client
  it wraps, reads the body of the response and unmarshals it into the struct its pointer
  names; \<^verbatim>\<open>json.Unmarshal\<close> is a parameter that takes the bytes and the value the
  struct holds and gives the value it holds afterwards, or an error.
\<close>

definition SetResponseBodyHandler ::
  "('a, 'b, ('s, 'v) World) DoFunc \<Rightarrow> ('b \<Rightarrow> 'v \<Rightarrow> error + 'v) \<Rightarrow> nat \<Rightarrow> ('a, 'b, ('s, 'v) World) DoFunc" where
  "SetResponseBodyHandler c unmarshal ptr = (\<lambda>req w.
     case c req w of
       (Inl err, w') \<Rightarrow> (Inl err, w')
     | (Inr resp, w') \<Rightarrow>
         (case Body resp of
            (b, Some err) \<Rightarrow> (Inl (Wrapf ''ResponseDecodeError'' err), w')
          | (b, None) \<Rightarrow>
              (case unmarshal b (heap w' ptr) of
                 Inl err \<Rightarrow> (Inl (Wrapf ''ResponseDecodeError'' err), w')
               | Inr v \<Rightarrow> (Inr resp, w'\<lparr>heap := (heap w')(ptr := v)\<rparr>))))"

text \<open>
  \<^verbatim>\<open>url.Values\<close>, a map from keys to lists of values, as an association list;
  \<^verbatim>\<open>Set\<close> replaces what the key holds by the one value. \<^verbatim>\<open>Encode\<close> is a
  parameter.
\<close>

type_synonym Values = "(string \<times> string list) list"

fun Values_Set :: "Values \<Rightarrow> string \<Rightarrow> string \<Rightarrow> Values" where
  "Values_Set [] key val = [(key, [val])]"
| "Values_Set ((k, vs) # rest) key val =
     (if k = key then (key, [val]) # rest else (k, vs) # Values_Set rest key val)"

subsection \<open>Pagination\<close>

text \<open>
  The response structs, declared outside store.go: the fields the loops read, and the
  page's data.
\<close>

record HistoryResponse =
  Revision :: string
  HasMore :: bool
  SignedTransactions :: "string list"

record RefundLookupResponse =
  Refund_Revision :: string
  Refund_HasMore :: bool
  Refund_SignedTransactions :: "string list"

record 'i NotificationHistoryResponses =
  PaginationToken :: string
  Notification_HasMore :: bool
  NotificationHistory :: "'i list"

definition HostSandBox :: string where
  "HostSandBox = ''https://api.storekit-sandbox.itunes.apple.com''"

definition HostProduction :: string where
  "HostProduction = ''https://api.storekit.itunes.apple.com''"

definition MethodGet :: string where
  "MethodGet = ''GET''"

definition MethodPost :: string where
  "MethodPost = ''POST''"

text \<open>
  The loop of \<^verbatim>\<open>GetTransactionHistory\<close> (store.go, lines 131 to 152). Each round
  allocates a fresh \<^verbatim>\<open>rsp\<close>, wraps the client of the round before in a handler that
  decodes into it, sends the request, and on success appends the pointer. The loop has
  no bound: \<open>None\<close> is the run that never returns. On an error the responses returned
  are nil, the empty list.
\<close>

partial_function (option) GetTransactionHistory_loop ::
  "(Values \<Rightarrow> string) \<Rightarrow> ('b \<Rightarrow> HistoryResponse \<Rightarrow> error + HistoryResponse) \<Rightarrow> string \<Rightarrow>
   ('a, 'b, ('s, HistoryResponse) World) DoFunc \<Rightarrow> Values \<Rightarrow> nat list \<Rightarrow> ('s, HistoryResponse) World \<Rightarrow>
   ((nat list \<times> error option) \<times> ('s, HistoryResponse) World) option" where
  "GetTransactionHistory_loop Encode unmarshal U client query responses w =
     (case new w \<lparr>Revision = [], HasMore = False, SignedTransactions = []\<rparr> of
        (rsp, w1) \<Rightarrow>
     (case SetResponseBodyHandler client unmarshal rsp
             \<lparr>Method = MethodGet, URL = U @ ''?'' @ Encode query, ReqHeader = [], ReqBody = None\<rparr> w1 of
        (Inl err, w2) \<Rightarrow> Some (([], Some err), w2)
      | (Inr resp, w2) \<Rightarrow>
          if \<not> HasMore (heap w2 rsp) then Some ((responses @ [rsp], None), w2)
          else if Revision (heap w2 rsp) \<noteq> [] then
            GetTransactionHistory_loop Encode unmarshal U
              (SetResponseBodyHandler client unmarshal rsp)
              (Values_Set query ''revision'' (Revision (heap w2 rsp)))
              (responses @ [rsp]) w2
          else Some ((responses @ [rsp], None), w2)))"

declare GetTransactionHistory_loop.simps [code]

text \<open>
  \<^verbatim>\<open>GetTransactionHistory\<close> (lines 120 to 153). \<open>hostUrl\<close> is the client's host, which
  holds no placeholder, so the replacement puts the identifier after the path's prefix.
  \<open>client\<close> stands for \<^verbatim>\<open>RequireResponseStatus(c.httpClient(), http.StatusOK)\<close>,
  built from decorators that store.go does not define. A nil \<open>query\<close> is \<open>None\<close>.
\<close>

definition GetTransactionHistory ::
  "(Values \<Rightarrow> string) \<Rightarrow> ('b \<Rightarrow> HistoryResponse \<Rightarrow> error + HistoryResponse) \<Rightarrow> string \<Rightarrow>
   ('a, 'b, ('s, HistoryResponse) World) DoFunc \<Rightarrow> string \<Rightarrow> Values option \<Rightarrow> ('s, HistoryResponse) World \<Rightarrow>
   ((nat list \<times> error option) \<times> ('s, HistoryResponse) World) option" where
  "GetTransactionHistory Encode unmarshal hostUrl client originalTransactionId query w =
     GetTransactionHistory_loop Encode unmarshal
       (hostUrl @ ''/inApps/v1/history/'' @ originalTransactionId) client
       (case query of None \<Rightarrow> [] | Some q \<Rightarrow> q) [] w"

text \<open>
  The loop of \<^verbatim>\<open>GetRefundHistory\<close> (lines 214 to 237): the first request goes to
  the base URL, each later one to the base URL with the revision of the response before
  as its only query parameter.
\<close>

partial_function (option) GetRefundHistory_loop ::
  "(Values \<Rightarrow> string) \<Rightarrow> ('b \<Rightarrow> RefundLookupResponse \<Rightarrow> error + RefundLookupResponse) \<Rightarrow> string \<Rightarrow>
   ('a, 'b, ('s, RefundLookupResponse) World) DoFunc \<Rightarrow> string \<Rightarrow> nat list \<Rightarrow>
   ('s, RefundLookupResponse) World \<Rightarrow>
   ((nat list \<times> error option) \<times> ('s, RefundLookupResponse) World) option" where
  "GetRefundHistory_loop Encode unmarshal baseURL client U responses w =
     (case new w \<lparr>Refund_Revision = [], Refund_HasMore = False, Refund_SignedTransactions = []\<rparr> of
        (rsp, w1) \<Rightarrow>
     (case SetResponseBodyHandler client unmarshal rsp
             \<lparr>Method = MethodGet, URL = U, ReqHeader = [], ReqBody = None\<rparr> w1 of
        (Inl err, w2) \<Rightarrow> Some (([], Some err), w2)
      | (Inr resp, w2) \<Rightarrow>
          if \<not> Refund_HasMore (heap w2 rsp) then Some ((responses @ [rsp], None), w2)
          else if Refund_Revision (heap w2 rsp) \<noteq> [] then
            GetRefundHistory_loop Encode unmarshal baseURL
              (SetResponseBodyHandler client unmarshal rsp)
              (baseURL @ ''?'' @ Encode (Values_Set [] ''revision'' (Refund_Revision (heap w2 rsp))))
              (responses @ [rsp]) w2
          else Some ((responses @ [rsp], None), w2)))"

declare GetRefundHistory_loop.simps [code]

definition GetRefundHistory ::
  "(Values \<Rightarrow> string) \<Rightarrow> ('b \<Rightarrow> RefundLookupResponse \<Rightarrow> error + RefundLookupResponse) \<Rightarrow> string \<Rightarrow>
   ('a, 'b, ('s, RefundLookupResponse) World) DoFunc \<Rightarrow> string \<Rightarrow> ('s, RefundLookupResponse) World \<Rightarrow>
   ((nat list \<times> error option) \<times> ('s, RefundLookupResponse) World) option" where
  "GetRefundHistory Encode unmarshal hostUrl client originalTransactionId w =
     GetRefundHistory_loop Encode unmarshal
       (hostUrl @ ''/inApps/v2/refund/lookup/'' @ originalTransactionId) client
       (hostUrl @ ''/inApps/v2/refund/lookup/'' @ originalTransactionId) [] w"

text \<open>
  The loop of \<^verbatim>\<open>GetNotificationHistory\<close> (lines 329 to 356). Each round wraps the
  client in \<^verbatim>\<open>SetRequestBodyJSON\<close> (a decorator that store.go does not define, a
  parameter here) and in a response handler, and appends the items of the decoded page,
  by value, to the result.
\<close>

partial_function (option) GetNotificationHistory_loop ::
  "(Values \<Rightarrow> string) \<Rightarrow>
   ('b \<Rightarrow> 'i NotificationHistoryResponses \<Rightarrow> error + 'i NotificationHistoryResponses) \<Rightarrow>
   (('a, 'b, ('s, 'i NotificationHistoryResponses) World) DoFunc \<Rightarrow> 'q \<Rightarrow>
      ('a, 'b, ('s, 'i NotificationHistoryResponses) World) DoFunc) \<Rightarrow> 'q \<Rightarrow> string \<Rightarrow>
   ('a, 'b, ('s, 'i NotificationHistoryResponses) World) DoFunc \<Rightarrow> string \<Rightarrow> 'i list \<Rightarrow>
   ('s, 'i NotificationHistoryResponses) World \<Rightarrow>
   (('i list \<times> error option) \<times> ('s, 'i NotificationHistoryResponses) World) option" where
  "GetNotificationHistory_loop Encode unmarshal SetRequestBodyJSON body baseURL client U responses w =
     (case new w \<lparr>PaginationToken = [], Notification_HasMore = False, NotificationHistory = []\<rparr> of
        (rsp, w1) \<Rightarrow>
     (case SetResponseBodyHandler (SetRequestBodyJSON client body) unmarshal rsp
             \<lparr>Method = MethodPost, URL = U, ReqHeader = [], ReqBody = None\<rparr> w1 of
        (Inl err, w2) \<Rightarrow> Some (([], Some err), w2)
      | (Inr resp, w2) \<Rightarrow>
          if \<not> Notification_HasMore (heap w2 rsp)
          then Some ((responses @ NotificationHistory (heap w2 rsp), None), w2)
          else if PaginationToken (heap w2 rsp) \<noteq> [] then
            GetNotificationHistory_loop Encode unmarshal SetRequestBodyJSON body baseURL
              (SetResponseBodyHandler (SetRequestBodyJSON client body) unmarshal rsp)
              (baseURL @ ''?'' @ Encode (Values_Set [] ''paginationToken'' (PaginationToken (heap w2 rsp))))
              (responses @ NotificationHistory (heap w2 rsp)) w2
          else Some ((responses @ NotificationHistory (heap w2 rsp), None), w2)))"

declare GetNotificationHistory_loop.simps [code]

definition GetNotificationHistory ::
  "(Values \<Rightarrow> string) \<Rightarrow>
   ('b \<Rightarrow> 'i NotificationHistoryResponses \<Rightarrow> error + 'i NotificationHistoryResponses) \<Rightarrow>
   (('a, 'b, ('s, 'i NotificationHistoryResponses) World) DoFunc \<Rightarrow> 'q \<Rightarrow>
      ('a, 'b, ('s, 'i NotificationHistoryResponses) World) DoFunc) \<Rightarrow> string \<Rightarrow>
   ('a, 'b, ('s, 'i NotificationHistoryResponses) World) DoFunc \<Rightarrow> 'q \<Rightarrow>
   ('s, 'i NotificationHistoryResponses) World \<Rightarrow>
   (('i list \<times> error option) \<times> ('s, 'i NotificationHistoryResponses) World) option" where
  "GetNotificationHistory Encode unmarshal SetRequestBodyJSON hostUrl client body w =
     GetNotificationHistory_loop Encode unmarshal SetRequestBodyJSON body
       (hostUrl @ ''/inApps/v1/notifications/history'') client
       (hostUrl @ ''/inApps/v1/notifications/history'') [] w"

subsection \<open>The request executor\<close>

text \<open>
  Modelled from the spec: \<^verbatim>\<open>newAppStoreAPIError\<close> is not in store.go. The spec
  (4.5): a body that matches the API's structured error envelope is surfaced as a typed
  \<^verbatim>\<open>APIError{code, message}\<close>. Matching the envelope is a parameter: it gives the
  code and the message the server reported, or nothing. The function returns the error
  and whether there is one.
\<close>

definition newAppStoreAPIError ::
  "('b \<Rightarrow> (int \<times> string) option) \<Rightarrow> 'b \<Rightarrow> (string \<times> string) list \<Rightarrow> error option \<times> bool" where
  "newAppStoreAPIError envelope b header =
     (case envelope b of
        None \<Rightarrow> (None, False)
      | Some (code, message) \<Rightarrow> (Some (APIError code message), True))"

text \<open>
  \<^verbatim>\<open>StoreClient.Do\<close> (lines 484 to 508): the status code, the body read (\<open>None\<close> is
  nil) and the error. \<^verbatim>\<open>http.NewRequest\<close> is a parameter; \<open>client\<close> stands for
  \<^verbatim>\<open>c.httpClient()\<close>.
\<close>

definition Do ::
  "(string \<Rightarrow> string \<Rightarrow> 'a option \<Rightarrow> error + 'a Request) \<Rightarrow> ('b \<Rightarrow> (int \<times> string) option) \<Rightarrow>
   ('a, 'b, 'w) DoFunc \<Rightarrow> string \<Rightarrow> string \<Rightarrow> 'a option \<Rightarrow> 'w \<Rightarrow>
   (int \<times> 'b option \<times> error option) \<times> 'w" where
  "Do NewRequest envelope client method url body w =
     (case NewRequest method url body of
        Inl err \<Rightarrow> ((0, None, Some (Wrapf ''appstore new http request err'' err)), w)
      | Inr req \<Rightarrow>
          (case client (req\<lparr>ReqHeader := (''Content-Type'', ''application/json'') # ReqHeader req\<rparr>) w of
             (Inl err, w') \<Rightarrow> ((0, None, Some (Wrapf ''appstore http client do err'' err)), w')
           | (Inr resp, w') \<Rightarrow>
               (case Body resp of
                  (byteData, Some err) \<Rightarrow>
                    ((StatusCode resp, None, Some (Wrapf ''appstore read http body err'' err)), w')
                | (byteData, None) \<Rightarrow>
                    if StatusCode resp \<noteq> StatusOK then
                      (case newAppStoreAPIError envelope byteData (Header resp) of
                         (rErr, True) \<Rightarrow> ((StatusCode resp, Some byteData, rErr), w')
                       | (rErr, False) \<Rightarrow> ((StatusCode resp, Some byteData, None), w'))
                    else ((StatusCode resp, Some byteData, None), w'))))"

subsection \<open>Concrete collaborators\<close>

text \<open>
  A certificate environment on which every stage succeeds: the chain is the three
  named entries, every entry but \<open>''broken''\<close> parses to a certificate with an
  elliptic-curve key, the chain verifies, and the signature check accepts the key of the
  leaf and fills the target with the payload's field.
\<close>

definition fill :: "Claims \<Rightarrow> Claims" where
  "fill claims =
     (case claims of
        JWSTransaction fs \<Rightarrow> JWSTransaction [(''transactionId'', ''1000000123456789'')]
      | JWSRenewalInfoDecodedPayload fs \<Rightarrow> JWSRenewalInfoDecodedPayload [(''renewalDate'', ''1700000000000'')]
      | NotificationPayload fs \<Rightarrow> NotificationPayload [(''notificationType'', ''TEST'')])"

definition example_env :: Env where
  "example_env =
     \<lparr>extractCertByIndex = (\<lambda>s i.
          if i = 0 then Inr ''leaf'' else if i = 1 then Inr ''intermediate''
          else if i = 2 then Inr ''root'' else Inl (Errorf ''invalid index'')),
      x509_ParseCertificate = (\<lambda>b.
          if b = ''broken'' then Inl (Errorf ''x509: malformed certificate'')
          else Inr \<lparr>Raw = b, PublicKey = ecdsa_PublicKey b\<rparr>),
      verifyCert = (\<lambda>r i l. None),
      jwt_ParseWithClaims = (\<lambda>s claims keyFunc.
          if keyFunc () = Inr (ecdsa_PublicKey ''leaf'') then (fill claims, None)
          else (fill claims, Some (Errorf ''crypto/ecdsa: verification error''))),
      RawURLEncoding_DecodeString = (\<lambda>s. Inr s)\<rparr>"

text \<open>The chain with one entry replaced by bytes that do not parse.\<close>

definition broken_at :: "nat \<Rightarrow> Env" where
  "broken_at n = example_env\<lparr>extractCertByIndex := (\<lambda>s i.
       if i = n then Inr ''broken'' else extractCertByIndex example_env s i)\<rparr>"

text \<open>A leaf certificate that carries a key of another type.\<close>

definition rsa_leaf_env :: Env where
  "rsa_leaf_env = example_env\<lparr>x509_ParseCertificate := (\<lambda>b.
       Inr \<lparr>Raw = b, PublicKey = (if b = ''leaf'' then other_PublicKey b else ecdsa_PublicKey b)\<rparr>)\<rparr>"

text \<open>A chain that does not verify against the pinned root.\<close>

definition untrusted_env :: Env where
  "untrusted_env = example_env\<lparr>verifyCert := (\<lambda>r i l.
       Some (Errorf ''x509: certificate signed by unknown authority''))\<rparr>"

text \<open>
  A payload whose signature does not verify: the library has decoded the claims into the
  target before it rejects the signature.
\<close>

definition bad_signature_env :: Env where
  "bad_signature_env = example_env\<lparr>jwt_ParseWithClaims := (\<lambda>s claims keyFunc.
       (fill claims, Some (Errorf ''crypto/ecdsa: verification error'')))\<rparr>"

text \<open>
  A server with a history of two pages: the request without a revision gets the first
  page, the request with revision \<open>r1\<close> the second. It records the requests it
  receives. The decoder replaces the struct by the page of the body, as unmarshalling a
  document that holds every field does; the encoder writes \<open>key=value\<close>.
\<close>

fun plain_Encode :: "Values \<Rightarrow> string" where
  "plain_Encode [] = []"
| "plain_Encode ((k, vs) # rest) =
     k @ ''='' @ concat vs @ (if rest = [] then [] else ''&'' @ plain_Encode rest)"

definition replace_all :: "'v \<Rightarrow> 'v \<Rightarrow> error + 'v" where
  "replace_all b old = Inr b"

definition page1 :: HistoryResponse where
  "page1 = \<lparr>Revision = ''r1'', HasMore = True, SignedTransactions = [''t1'', ''t2'']\<rparr>"

definition page2 :: HistoryResponse where
  "page2 = \<lparr>Revision = ''r2'', HasMore = False, SignedTransactions = [''t3'']\<rparr>"

definition two_page_server ::
  "(string, HistoryResponse, (string list, HistoryResponse) World) DoFunc" where
  "two_page_server req w =
     (if URL req = ''https://api.storekit.itunes.apple.com/inApps/v1/history/42?''
      then (Inr \<lparr>StatusCode = 200, Header = [], Body = (page1, None)\<rparr>,
            w\<lparr>server := server w @ [URL req]\<rparr>)
      else if URL req = ''https://api.storekit.itunes.apple.com/inApps/v1/history/42?revision=r1''
      then (Inr \<lparr>StatusCode = 200, Header = [], Body = (page2, None)\<rparr>,
            w\<lparr>server := server w @ [URL req]\<rparr>)
      else (Inl (Errorf ''appstore api: unexpected status code 404''),
            w\<lparr>server := server w @ [URL req]\<rparr>))"

definition empty_world :: "'v \<Rightarrow> (string list, 'v) World" where
  "empty_world v = \<lparr>server = [], heap = (\<lambda>a. v), next_free = 0\<rparr>"

text \<open>
  A server that answers every request with the same page, and a request decorator that
  puts the given body into the request.
\<close>

definition same_page_server :: "'v \<Rightarrow> (string, 'v, (string list, 'v) World) DoFunc" where
  "same_page_server page req w =
     (Inr \<lparr>StatusCode = 200, Header = [], Body = (page, None)\<rparr>, w\<lparr>server := server w @ [URL req]\<rparr>)"

definition set_body :: "('a, 'b, 'w) DoFunc \<Rightarrow> 'a \<Rightarrow> ('a, 'b, 'w) DoFunc" where
  "set_body c body = (\<lambda>req. c (req\<lparr>ReqBody := Some body\<rparr>))"

text \<open>
  A transport that answers with status 404 and a body that holds the error envelope.
  A body is given by the fields of the envelope it holds, if it holds one; the request
  constructor accepts every method and URL.
\<close>

definition not_found_client :: "(string, (int \<times> string) option, unit) DoFunc" where
  "not_found_client req w =
     (Inr \<lparr>StatusCode = 404, Header = [], Body = (Some (4040010, ''Transaction id not found.''), None)\<rparr>, w)"

definition any_request :: "string \<Rightarrow> string \<Rightarrow> string option \<Rightarrow> error + string Request" where
  "any_request method url body = Inr \<lparr>Method = method, URL = url, ReqHeader = [], ReqBody = body\<rparr>"

definition held_envelope :: "(int \<times> string) option \<Rightarrow> (int \<times> string) option" where
  "held_envelope b = b"

section \<open>Properties\<close>

subsection \<open>The retry predicate\<close>

lemma Is_from_chain: "Is_from e target = (target \<in> set (unwrap_chain e))"
  by (induction e) auto

text \<open>
  C6. The retry predicate of the client's HTTP pipeline is true exactly when its integer
  argument is 401 (Unauthorized) or the error is \<^verbatim>\<open>io.ErrUnexpectedEOF\<close> or
  \<^verbatim>\<open>io.EOF\<close>, itself or wrapped: one of the two is on the chain of errors reached
  by unwrapping. For every other status and error, the nil error among them, it is false.
\<close>

theorem shouldRetry_iff:
  "shouldRetry i err =
     (i = 401 \<or> (\<exists>e. err = Some e \<and>
        (ErrUnexpectedEOF \<in> set (unwrap_chain e) \<or> EOF \<in> set (unwrap_chain e))))"
proof (cases err)
  case None
  then show ?thesis
    by (simp add: shouldRetry_def errors_Is_def StatusUnauthorized_def)
next
  case (Some e)
  then show ?thesis
    by (auto simp: shouldRetry_def errors_Is_def StatusUnauthorized_def Is_from_chain)
qed

lemma shouldRetry_examples:
  "shouldRetry 401 None"
  "shouldRetry 0 (Some (Wrapf ''Get https://api.storekit.itunes.apple.com'' EOF))"
  "shouldRetry 0 (Some ErrUnexpectedEOF)"
  "\<not> shouldRetry 200 None"
  "\<not> shouldRetry 500 None"
  "\<not> shouldRetry 0 (Some (Errorf ''context deadline exceeded''))"
  by (simp_all add: shouldRetry_def errors_Is_def StatusUnauthorized_def)

subsection \<open>Decoding signed payloads\<close>

lemma parseJWS_ok_iff:
  "(fst (parseJWS E jws claims) = None) =
     (\<exists>rootB root midB mid leafB leaf k claims'.
        extractCertByIndex E jws 2 = Inr rootB \<and> x509_ParseCertificate E rootB = Inr root \<and>
        extractCertByIndex E jws 1 = Inr midB \<and> x509_ParseCertificate E midB = Inr mid \<and>
        extractCertByIndex E jws 0 = Inr leafB \<and> x509_ParseCertificate E leafB = Inr leaf \<and>
        verifyCert E root mid leaf = None \<and> PublicKey leaf = ecdsa_PublicKey k \<and>
        jwt_ParseWithClaims E jws claims (\<lambda>token. Inr (ecdsa_PublicKey k)) = (claims', None))"
  unfolding parseJWS_def
  by (auto split: sum.splits option.splits PublicKey.splits prod.splits)

lemma ParseSignedTransaction_cases:
  "ParseSignedTransaction E jws =
     (case fst (parseJWS E jws (JWSTransaction [])) of
        None \<Rightarrow> (Some (snd (parseJWS E jws (JWSTransaction []))), None)
      | Some err \<Rightarrow> (None, Some err))"
  by (auto simp: ParseSignedTransaction_def split: prod.splits option.splits)

lemma parseJWS_example:
  "parseJWS example_env jws claims = (None, fill claims)"
  by (simp add: parseJWS_def example_env_def)

lemma parseJWS_untrusted:
  "parseJWS untrusted_env jws claims =
     (Some (Errorf ''x509: certificate signed by unknown authority''), claims)"
  by (simp add: parseJWS_def untrusted_env_def example_env_def)

lemma parseJWS_bad_signature:
  "parseJWS bad_signature_env jws claims =
     (Some (Errorf ''crypto/ecdsa: verification error''), fill claims)"
  by (simp add: parseJWS_def bad_signature_env_def example_env_def)

text \<open>
  C1. \<^verbatim>\<open>parseJWS\<close> returns the nil error exactly when every stage of the pipeline
  succeeds: the three certificates are extracted and parse, the chain verifies, the leaf's
  key is an elliptic-curve key, and the signature check with that key gives no error. So
  a failure of any stage is an error. The error of \<^verbatim>\<open>ParseSignedTransaction\<close> is the
  error of \<^verbatim>\<open>parseJWS\<close> on a fresh transaction, and with an error the transaction
  returned is nil; without one it is the decoded target. The error of
  \<^verbatim>\<open>ParseNotificationV2\<close> is the error of \<^verbatim>\<open>parseJWS\<close> on the target, so a
  payload comes without an error only when the parse succeeded.
\<close>

theorem decode_failure_is_error:
  "((fst (parseJWS E jws claims) = None) =
     (\<exists>rootB root midB mid leafB leaf k claims'.
        extractCertByIndex E jws 2 = Inr rootB \<and> x509_ParseCertificate E rootB = Inr root \<and>
        extractCertByIndex E jws 1 = Inr midB \<and> x509_ParseCertificate E midB = Inr mid \<and>
        extractCertByIndex E jws 0 = Inr leafB \<and> x509_ParseCertificate E leafB = Inr leaf \<and>
        verifyCert E root mid leaf = None \<and> PublicKey leaf = ecdsa_PublicKey k \<and>
        jwt_ParseWithClaims E jws claims (\<lambda>token. Inr (ecdsa_PublicKey k)) = (claims', None)))
   \<and> snd (ParseSignedTransaction E jws) = fst (parseJWS E jws (JWSTransaction []))
   \<and> (snd (ParseSignedTransaction E jws) \<noteq> None \<longrightarrow> fst (ParseSignedTransaction E jws) = None)
   \<and> (snd (ParseSignedTransaction E jws) = None \<longrightarrow>
        fst (ParseSignedTransaction E jws) = Some (snd (parseJWS E jws (JWSTransaction []))))
   \<and> snd (ParseNotificationV2 E jws) =
        fst (parseJWS E jws (snd (parseJWS E jws (NotificationPayload []))))"
proof -
  have pst: "snd (ParseSignedTransaction E jws) = fst (parseJWS E jws (JWSTransaction []))"
    "snd (ParseSignedTransaction E jws) \<noteq> None \<longrightarrow> fst (ParseSignedTransaction E jws) = None"
    "snd (ParseSignedTransaction E jws) = None \<longrightarrow>
        fst (ParseSignedTransaction E jws) = Some (snd (parseJWS E jws (JWSTransaction [])))"
    by (simp_all add: ParseSignedTransaction_cases split: option.splits)
  have pn: "snd (ParseNotificationV2 E jws) =
        fst (parseJWS E jws (snd (parseJWS E jws (NotificationPayload []))))"
    by (simp add: ParseNotificationV2_def split: prod.splits)
  show ?thesis using parseJWS_ok_iff [of E jws claims] pst pn by blast
qed

theorem decode_failure_is_error_witness:
  "ParseSignedTransaction bad_signature_env ''h.p.s'' =
     (None, Some (Errorf ''crypto/ecdsa: verification error''))
   \<and> ParseSignedTransaction untrusted_env ''h.p.s'' =
     (None, Some (Errorf ''x509: certificate signed by unknown authority''))
   \<and> ParseSignedTransaction example_env ''h.p.s'' =
     (Some (JWSTransaction [(''transactionId'', ''1000000123456789'')]), None)
   \<and> snd (ParseNotificationV2 bad_signature_env ''h.p.s'') =
     Some (Errorf ''crypto/ecdsa: verification error'')"
proof -
  have bad: "fst (parseJWS bad_signature_env ''h.p.s'' c) = Some (Errorf ''crypto/ecdsa: verification error'')"
    and unt: "fst (parseJWS untrusted_env ''h.p.s'' c) = Some (Errorf ''x509: certificate signed by unknown authority'')"
    and ok: "parseJWS example_env ''h.p.s'' c = (None, fill c)" for c
    by (simp_all add: parseJWS_bad_signature parseJWS_untrusted parseJWS_example)
  have "ParseSignedTransaction bad_signature_env ''h.p.s'' =
          (None, Some (Errorf ''crypto/ecdsa: verification error''))"
    using decode_failure_is_error [of bad_signature_env "''h.p.s''" "JWSTransaction []"] bad
    by (simp add: prod_eq_iff)
  moreover have "ParseSignedTransaction untrusted_env ''h.p.s'' =
          (None, Some (Errorf ''x509: certificate signed by unknown authority''))"
    using decode_failure_is_error [of untrusted_env "''h.p.s''" "JWSTransaction []"] unt
    by (simp add: prod_eq_iff)
  moreover have "ParseSignedTransaction example_env ''h.p.s'' =
          (Some (JWSTransaction [(''transactionId'', ''1000000123456789'')]), None)"
    using decode_failure_is_error [of example_env "''h.p.s''" "JWSTransaction []"] ok
    by (simp add: prod_eq_iff fill_def)
  moreover have "snd (ParseNotificationV2 bad_signature_env ''h.p.s'') =
          Some (Errorf ''crypto/ecdsa: verification error'')"
    using decode_failure_is_error [of bad_signature_env "''h.p.s''" "JWSTransaction []"] bad
    by simp
  ultimately show ?thesis by simp
qed

lemma parseJWS_verified:
  "extractCertByIndex E jws 2 = Inr rootB \<Longrightarrow> x509_ParseCertificate E rootB = Inr root \<Longrightarrow>
   extractCertByIndex E jws 1 = Inr midB \<Longrightarrow> x509_ParseCertificate E midB = Inr mid \<Longrightarrow>
   extractCertByIndex E jws 0 = Inr leafB \<Longrightarrow> x509_ParseCertificate E leafB = Inr leaf \<Longrightarrow>
   verifyCert E root mid leaf = None \<Longrightarrow>
   parseJWS E jws claims =
     (case PublicKey leaf of
        other_PublicKey k \<Rightarrow> (Some (Errorf ''appstore public key must be of type ecdsa.PublicKey''), claims)
      | ecdsa_PublicKey k \<Rightarrow>
          (case jwt_ParseWithClaims E jws claims (\<lambda>token. Inr (ecdsa_PublicKey k)) of
             (claims', err) \<Rightarrow> (err, claims')))"
  by (simp add: parseJWS_def)

text \<open>
  C2. A chain entry that does not parse as an X.509 certificate makes \<^verbatim>\<open>parseJWS\<close>
  fail with an error that names the position, and leaves the target alone: the root
  error when the entry at index 2 is extracted and does not parse; the intermediate
  error when the root parses and the entry at index 1 is extracted and does not parse;
  the leaf error when root and intermediate parse and the entry at index 0 is extracted
  and does not parse. The certificate named is the first broken one in the order root,
  intermediate, leaf, and the three errors differ from each other.
\<close>

theorem parse_failure_names_position:
  "(extractCertByIndex E jws 2 = Inr rootB \<and> isl (x509_ParseCertificate E rootB) \<longrightarrow>
      parseJWS E jws claims =
        (Some (Errorf ''appstore failed to parse root certificate''), claims))
   \<and> (extractCertByIndex E jws 2 = Inr rootB \<and> \<not> isl (x509_ParseCertificate E rootB) \<and>
       extractCertByIndex E jws 1 = Inr midB \<and> isl (x509_ParseCertificate E midB) \<longrightarrow>
      parseJWS E jws claims =
        (Some (Errorf ''appstore failed to parse intermediate certificate''), claims))
   \<and> (extractCertByIndex E jws 2 = Inr rootB \<and> \<not> isl (x509_ParseCertificate E rootB) \<and>
       extractCertByIndex E jws 1 = Inr midB \<and> \<not> isl (x509_ParseCertificate E midB) \<and>
       extractCertByIndex E jws 0 = Inr leafB \<and> isl (x509_ParseCertificate E leafB) \<longrightarrow>
      parseJWS E jws claims =
        (Some (Errorf ''appstore failed to parse leaf certificate''), claims))
   \<and> distinct [Errorf ''appstore failed to parse root certificate'',
                Errorf ''appstore failed to parse intermediate certificate'',
                Errorf ''appstore failed to parse leaf certificate'']"
proof (intro conjI impI)
  assume "extractCertByIndex E jws 2 = Inr rootB \<and> isl (x509_ParseCertificate E rootB)"
  then show "parseJWS E jws claims =
      (Some (Errorf ''appstore failed to parse root certificate''), claims)"
    by (cases "x509_ParseCertificate E rootB") (simp_all add: parseJWS_def)
next
  assume "extractCertByIndex E jws 2 = Inr rootB \<and> \<not> isl (x509_ParseCertificate E rootB) \<and>
       extractCertByIndex E jws 1 = Inr midB \<and> isl (x509_ParseCertificate E midB)"
  then show "parseJWS E jws claims =
      (Some (Errorf ''appstore failed to parse intermediate certificate''), claims)"
    by (cases "x509_ParseCertificate E rootB"; cases "x509_ParseCertificate E midB")
       (simp_all add: parseJWS_def)
next
  assume "extractCertByIndex E jws 2 = Inr rootB \<and> \<not> isl (x509_ParseCertificate E rootB) \<and>
       extractCertByIndex E jws 1 = Inr midB \<and> \<not> isl (x509_ParseCertificate E midB) \<and>
       extractCertByIndex E jws 0 = Inr leafB \<and> isl (x509_ParseCertificate E leafB)"
  then show "parseJWS E jws claims =
      (Some (Errorf ''appstore failed to parse leaf certificate''), claims)"
    by (cases "x509_ParseCertificate E rootB"; cases "x509_ParseCertificate E midB";
        cases "x509_ParseCertificate E leafB")
       (simp_all add: parseJWS_def)
next
  show "distinct [Errorf ''appstore failed to parse root certificate'',
                Errorf ''appstore failed to parse intermediate certificate'',
                Errorf ''appstore failed to parse leaf certificate'']"
    by simp
qed

theorem parse_failure_names_position_witness:
  "parseJWS (broken_at 2) ''h.p.s'' (JWSTransaction []) =
     (Some (Errorf ''appstore failed to parse root certificate''), JWSTransaction [])
   \<and> parseJWS (broken_at 1) ''h.p.s'' (JWSTransaction []) =
     (Some (Errorf ''appstore failed to parse intermediate certificate''), JWSTransaction [])
   \<and> parseJWS (broken_at 0) ''h.p.s'' (JWSTransaction []) =
     (Some (Errorf ''appstore failed to parse leaf certificate''), JWSTransaction [])"
proof -
  have "parseJWS (broken_at 2) ''h.p.s'' (JWSTransaction []) =
     (Some (Errorf ''appstore failed to parse root certificate''), JWSTransaction [])"
    using parse_failure_names_position
      [where E = "broken_at 2" and jws = "''h.p.s''" and rootB = "''broken''" and midB = "''intermediate''"
         and leafB = "''leaf''" and claims = "JWSTransaction []"]
    by (simp add: broken_at_def example_env_def)
  moreover have "parseJWS (broken_at 1) ''h.p.s'' (JWSTransaction []) =
     (Some (Errorf ''appstore failed to parse intermediate certificate''), JWSTransaction [])"
    using parse_failure_names_position
      [where E = "broken_at 1" and jws = "''h.p.s''" and rootB = "''root''" and midB = "''broken''"
         and leafB = "''leaf''" and claims = "JWSTransaction []"]
    by (simp add: broken_at_def example_env_def)
  moreover have "parseJWS (broken_at 0) ''h.p.s'' (JWSTransaction []) =
     (Some (Errorf ''appstore failed to parse leaf certificate''), JWSTransaction [])"
    using parse_failure_names_position
      [where E = "broken_at 0" and jws = "''h.p.s''" and rootB = "''root''" and midB = "''intermediate''"
         and leafB = "''broken''" and claims = "JWSTransaction []"]
    by (simp add: broken_at_def example_env_def)
  ultimately show ?thesis by simp
qed

text \<open>
  C3. When the chain parses and verifies and the leaf's public key is not an
  elliptic-curve key, \<^verbatim>\<open>parseJWS\<close> fails with the unsupported-key-type error and
  does not reach the signature check: the result is the same whatever the check would
  do, and the target is untouched. When the key is an elliptic-curve key, the result is
  that of the signature check called with a key function that returns the leaf's key.
\<close>

theorem key_type_gate:
  assumes "extractCertByIndex E jws 2 = Inr rootB" "x509_ParseCertificate E rootB = Inr root"
    and "extractCertByIndex E jws 1 = Inr midB" "x509_ParseCertificate E midB = Inr mid"
    and "extractCertByIndex E jws 0 = Inr leafB" "x509_ParseCertificate E leafB = Inr leaf"
    and "verifyCert E root mid leaf = None"
  shows "((\<exists>k. PublicKey leaf = other_PublicKey k) \<longrightarrow>
           (\<forall>verify. parseJWS (E\<lparr>jwt_ParseWithClaims := verify\<rparr>) jws claims =
              (Some (Errorf ''appstore public key must be of type ecdsa.PublicKey''), claims)))
       \<and> ((\<exists>k. PublicKey leaf = ecdsa_PublicKey k) \<longrightarrow>
           parseJWS E jws claims =
             (snd (jwt_ParseWithClaims E jws claims (\<lambda>token. Inr (PublicKey leaf))),
              fst (jwt_ParseWithClaims E jws claims (\<lambda>token. Inr (PublicKey leaf)))))"
proof (intro conjI impI allI)
  fix verify
  assume "\<exists>k. PublicKey leaf = other_PublicKey k"
  then obtain k where k: "PublicKey leaf = other_PublicKey k" ..
  show "parseJWS (E\<lparr>jwt_ParseWithClaims := verify\<rparr>) jws claims =
      (Some (Errorf ''appstore public key must be of type ecdsa.PublicKey''), claims)"
    using parseJWS_verified
      [of "E\<lparr>jwt_ParseWithClaims := verify\<rparr>" jws rootB root midB mid leafB leaf claims]
      assms k by simp
next
  assume "\<exists>k. PublicKey leaf = ecdsa_PublicKey k"
  then obtain k where k: "PublicKey leaf = ecdsa_PublicKey k" ..
  show "parseJWS E jws claims =
      (snd (jwt_ParseWithClaims E jws claims (\<lambda>token. Inr (PublicKey leaf))),
       fst (jwt_ParseWithClaims E jws claims (\<lambda>token. Inr (PublicKey leaf))))"
    using parseJWS_verified [OF assms, of claims] k by (simp split: prod.splits)
qed

theorem key_type_gate_witness:
  "parseJWS (rsa_leaf_env\<lparr>jwt_ParseWithClaims := (\<lambda>s c keyFunc. (fill c, None))\<rparr>) ''h.p.s'' (JWSTransaction []) =
     (Some (Errorf ''appstore public key must be of type ecdsa.PublicKey''), JWSTransaction [])
   \<and> parseJWS example_env ''h.p.s'' (JWSTransaction []) =
     (None, JWSTransaction [(''transactionId'', ''1000000123456789'')])"
proof -
  have "parseJWS (rsa_leaf_env\<lparr>jwt_ParseWithClaims := (\<lambda>s c keyFunc. (fill c, None))\<rparr>) ''h.p.s'' (JWSTransaction []) =
     (Some (Errorf ''appstore public key must be of type ecdsa.PublicKey''), JWSTransaction [])"
    using key_type_gate [of rsa_leaf_env "''h.p.s''" "''root''"
        "\<lparr>Raw = ''root'', PublicKey = ecdsa_PublicKey ''root''\<rparr>" "''intermediate''"
        "\<lparr>Raw = ''intermediate'', PublicKey = ecdsa_PublicKey ''intermediate''\<rparr>" "''leaf''"
        "\<lparr>Raw = ''leaf'', PublicKey = other_PublicKey ''leaf''\<rparr>" "JWSTransaction []"]
    by (simp add: rsa_leaf_env_def example_env_def)
  moreover have "parseJWS example_env ''h.p.s'' (JWSTransaction []) =
     (None, JWSTransaction [(''transactionId'', ''1000000123456789'')])"
    using key_type_gate [of example_env "''h.p.s''" "''root''"
        "\<lparr>Raw = ''root'', PublicKey = ecdsa_PublicKey ''root''\<rparr>" "''intermediate''"
        "\<lparr>Raw = ''intermediate'', PublicKey = ecdsa_PublicKey ''intermediate''\<rparr>" "''leaf''"
        "\<lparr>Raw = ''leaf'', PublicKey = ecdsa_PublicKey ''leaf''\<rparr>" "JWSTransaction []"]
    by (simp add: example_env_def fill_def)
  ultimately show ?thesis by simp
qed

lemma ParseSignedTransactions_loop_eq:
  "ParseSignedTransactions_loop E ts acc =
     acc @ List.map_filter (\<lambda>v. fst (ParseSignedTransaction E v)) ts"
proof (induction ts arbitrary: acc)
  case Nil
  then show ?case by simp
next
  case (Cons v ts)
  show ?case
    by (cases "fst (parseJWS E v (JWSTransaction []))")
       (simp_all add: Cons.IH ParseSignedTransaction_cases)
qed

text \<open>
  C4, as the code has it. \<^verbatim>\<open>ParseSignedTransactions\<close> returns the nil error for
  every input, and its result holds the transactions of exactly those elements that
  parse and verify, in the order of the input: an element whose parse fails is left out
  and its error is not reported. (\<^verbatim>\<open>ParseSignedTransaction\<close>, for one element,
  returns a transaction exactly when it returns no error.)
\<close>

theorem ParseSignedTransactions_keeps_successes:
  "ParseSignedTransactions E transactions =
     (List.map_filter (\<lambda>v. fst (ParseSignedTransaction E v)) transactions, None)
   \<and> (fst (ParseSignedTransaction E v) = None) = (snd (ParseSignedTransaction E v) \<noteq> None)"
proof -
  have "(fst (ParseSignedTransaction E v) = None) = (snd (ParseSignedTransaction E v) \<noteq> None)"
    by (simp add: ParseSignedTransaction_cases split: option.splits)
  then show ?thesis
    by (simp add: ParseSignedTransactions_def ParseSignedTransactions_loop_eq)
qed

text \<open>
  C4, as the claim states it, fails: on a list whose one element does not verify,
  \<^verbatim>\<open>ParseSignedTransaction\<close> reports the error and \<^verbatim>\<open>ParseSignedTransactions\<close>
  returns the empty result with the nil error.
\<close>

theorem ParseSignedTransactions_swallows_error:
  "ParseSignedTransaction untrusted_env ''h.p.s'' =
     (None, Some (Errorf ''x509: certificate signed by unknown authority''))
   \<and> ParseSignedTransactions untrusted_env [''h.p.s''] = ([], None)"
  by (simp add: ParseSignedTransactions_def ParseSignedTransaction_def parseJWS_untrusted)

subsection \<open>The unverified probe\<close>

lemma length_strings_Split: "length (strings_Split s sep) = Suc (count_list s sep)"
  by (induction s) (auto split: list.splits)

lemma index_Split_1: "(\<exists>x. index (strings_Split s sep) 1 = Inr x) = (sep \<in> set s)"
  using count_list_0_iff [of s sep] by (auto simp: index_def length_strings_Split)

text \<open>
  C5. For an input whose second segment exists and decodes, \<^verbatim>\<open>ParseJWSEncodeString\<close>
  returns nil and nil when the decoded segment contains neither \<open>transactionId\<close> nor
  \<open>renewalDate\<close>; when it contains \<open>transactionId\<close> the result is the transaction target
  and the error of the full verified parse; when it contains \<open>renewalDate\<close> (and not
  \<open>transactionId\<close>, which is looked for first) the result is the renewal-info target and
  the error of the full verified parse.
\<close>

theorem ParseJWSEncodeString_probe:
  assumes "index (strings_Split jws CHR ''.'') 1 = Inr part1"
    and "RawURLEncoding_DecodeString E part1 = Inr payload"
  shows "(\<not> strings_Contains payload ''transactionId'' \<and> \<not> strings_Contains payload ''renewalDate'' \<longrightarrow>
            ParseJWSEncodeString E jws = Inr (None, None))
       \<and> (strings_Contains payload ''transactionId'' \<longrightarrow>
            ParseJWSEncodeString E jws =
              Inr (Some (snd (parseJWS E jws (JWSTransaction []))), fst (parseJWS E jws (JWSTransaction []))))
       \<and> (\<not> strings_Contains payload ''transactionId'' \<and> strings_Contains payload ''renewalDate'' \<longrightarrow>
            ParseJWSEncodeString E jws =
              Inr (Some (snd (parseJWS E jws (JWSRenewalInfoDecodedPayload []))),
                   fst (parseJWS E jws (JWSRenewalInfoDecodedPayload []))))"
  using assms by (simp add: ParseJWSEncodeString_def split: prod.splits)

theorem ParseJWSEncodeString_probe_witness:
  "ParseJWSEncodeString example_env ''h.{productId:p}.s'' = Inr (None, None)
   \<and> ParseJWSEncodeString example_env ''h.{transactionId:1}.s'' =
       Inr (Some (JWSTransaction [(''transactionId'', ''1000000123456789'')]), None)
   \<and> ParseJWSEncodeString untrusted_env ''h.{transactionId:1}.s'' =
       Inr (Some (JWSTransaction []), Some (Errorf ''x509: certificate signed by unknown authority''))
   \<and> ParseJWSEncodeString example_env ''h.{renewalDate:2}.s'' =
       Inr (Some (JWSRenewalInfoDecodedPayload [(''renewalDate'', ''1700000000000'')]), None)"
proof -
  have d: "RawURLEncoding_DecodeString example_env x = Inr x"
    "RawURLEncoding_DecodeString untrusted_env x = Inr x" for x
    by (simp_all add: example_env_def untrusted_env_def)
  have "ParseJWSEncodeString example_env ''h.{productId:p}.s'' = Inr (None, None)"
    using ParseJWSEncodeString_probe
      [of "''h.{productId:p}.s''" "''{productId:p}''" example_env "''{productId:p}''"] d
    by (simp add: index_def)
  moreover have "ParseJWSEncodeString example_env ''h.{transactionId:1}.s'' =
       Inr (Some (JWSTransaction [(''transactionId'', ''1000000123456789'')]), None)"
    using ParseJWSEncodeString_probe
      [of "''h.{transactionId:1}.s''" "''{transactionId:1}''" example_env "''{transactionId:1}''"] d
    by (simp add: index_def parseJWS_example fill_def)
  moreover have "ParseJWSEncodeString untrusted_env ''h.{transactionId:1}.s'' =
       Inr (Some (JWSTransaction []), Some (Errorf ''x509: certificate signed by unknown authority''))"
    using ParseJWSEncodeString_probe
      [of "''h.{transactionId:1}.s''" "''{transactionId:1}''" untrusted_env "''{transactionId:1}''"] d
    by (simp add: index_def parseJWS_untrusted)
  moreover have "ParseJWSEncodeString example_env ''h.{renewalDate:2}.s'' =
       Inr (Some (JWSRenewalInfoDecodedPayload [(''renewalDate'', ''1700000000000'')]), None)"
    using ParseJWSEncodeString_probe
      [of "''h.{renewalDate:2}.s''" "''{renewalDate:2}''" example_env "''{renewalDate:2}''"] d
    by (simp add: index_def parseJWS_example fill_def)
  ultimately show ?thesis by simp
qed

text \<open>
  C9. \<^verbatim>\<open>ParseJWSEncodeString\<close> reads the second piece of the split of its input
  without a check. The read is in bounds exactly when the input contains a dot; on an
  input without a dot the split has one piece and the function panics with an index out
  of range (index 1, length 1), whatever the collaborators are.
\<close>

theorem ParseJWSEncodeString_index:
  "((\<exists>part1. index (strings_Split jws CHR ''.'') 1 = Inr part1) = (CHR ''.'' \<in> set jws))
   \<and> (CHR ''.'' \<notin> set jws \<longrightarrow> ParseJWSEncodeString E jws = Inl (IndexOutOfRange 1 1))
   \<and> (CHR ''.'' \<in> set jws \<longrightarrow> (\<exists>r. ParseJWSEncodeString E jws = Inr r))"
proof (intro conjI impI)
  show "(\<exists>part1. index (strings_Split jws CHR ''.'') 1 = Inr part1) = (CHR ''.'' \<in> set jws)"
    by (rule index_Split_1)
next
  assume "CHR ''.'' \<notin> set jws"
  then have "length (strings_Split jws CHR ''.'') = 1"
    by (simp add: length_strings_Split)
  then show "ParseJWSEncodeString E jws = Inl (IndexOutOfRange 1 1)"
    by (simp add: ParseJWSEncodeString_def index_def)
next
  assume "CHR ''.'' \<in> set jws"
  then obtain part1 where "index (strings_Split jws CHR ''.'') 1 = Inr part1"
    using index_Split_1 [of jws "CHR ''.''"] by blast
  then show "\<exists>r. ParseJWSEncodeString E jws = Inr r"
    by (simp add: ParseJWSEncodeString_def split: sum.splits prod.splits)
qed

theorem ParseJWSEncodeString_index_witness:
  "ParseJWSEncodeString example_env ''not a token'' = Inl (IndexOutOfRange 1 1)
   \<and> ParseJWSEncodeString example_env [] = Inl (IndexOutOfRange 1 1)
   \<and> (\<exists>r. ParseJWSEncodeString example_env ''h.p'' = Inr r)"
  using ParseJWSEncodeString_index [of "''not a token''" example_env]
    ParseJWSEncodeString_index [of "[]" example_env]
    ParseJWSEncodeString_index [of "''h.p''" example_env]
  by simp

subsection \<open>The request executor\<close>

text \<open>
  C7. When the client returns a response whose status is not in the 2xx range, the body
  is read without an error and it matches the API's error envelope, \<^verbatim>\<open>Do\<close> returns
  the status code, the raw body and the typed \<^verbatim>\<open>APIError\<close> that carries the code and
  the message of the envelope.
\<close>

theorem Do_returns_APIError:
  assumes "NewRequest method url body = Inr req"
    and "client (req\<lparr>ReqHeader := (''Content-Type'', ''application/json'') # ReqHeader req\<rparr>) w = (Inr resp, w')"
    and "Body resp = (byteData, None)"
    and "StatusCode resp < 200 \<or> 299 < StatusCode resp"
    and "envelope byteData = Some (code, message)"
  shows "Do NewRequest envelope client method url body w =
           ((StatusCode resp, Some byteData, Some (APIError code message)), w')"
proof -
  have "StatusCode resp \<noteq> StatusOK"
    using assms(4) by (auto simp: StatusOK_def)
  moreover have "newAppStoreAPIError envelope byteData (Header resp) = (Some (APIError code message), True)"
    using assms(5) by (simp add: newAppStoreAPIError_def)
  ultimately show ?thesis
    using assms(1-3) by (simp add: Do_def)
qed

theorem Do_returns_APIError_witness:
  "Do any_request held_envelope not_found_client ''GET''
      ''https://api.storekit.itunes.apple.com/inApps/v1/transactions/42'' None () =
     ((404, Some (Some (4040010, ''Transaction id not found.'')),
       Some (APIError 4040010 ''Transaction id not found.'')), ())"
  using Do_returns_APIError [of any_request "''GET''"
      "''https://api.storekit.itunes.apple.com/inApps/v1/transactions/42''" None
      "\<lparr>Method = ''GET'', URL = ''https://api.storekit.itunes.apple.com/inApps/v1/transactions/42'',
        ReqHeader = [], ReqBody = None\<rparr>"
      not_found_client "()"
      "\<lparr>StatusCode = 404, Header = [], Body = (Some (4040010, ''Transaction id not found.''), None)\<rparr>"
      "()" "Some (4040010, ''Transaction id not found.'')" held_envelope 4040010
      "''Transaction id not found.''"]
  by (simp add: any_request_def not_found_client_def held_envelope_def)

subsection \<open>Pagination\<close>

lemma GetTransactionHistory_loop_stop:
  assumes "new w \<lparr>Revision = [], HasMore = False, SignedTransactions = []\<rparr> = (rsp, w1)"
    and "SetResponseBodyHandler client unmarshal rsp
           \<lparr>Method = MethodGet, URL = U @ ''?'' @ Encode query, ReqHeader = [], ReqBody = None\<rparr> w1 =
         (Inr resp, w2)"
    and "\<not> HasMore (heap w2 rsp) \<or> Revision (heap w2 rsp) = []"
  shows "GetTransactionHistory_loop Encode unmarshal U client query responses w =
           Some ((responses @ [rsp], None), w2)"
  using assms by (subst GetTransactionHistory_loop.simps) auto

lemma GetTransactionHistory_loop_next:
  assumes "new w \<lparr>Revision = [], HasMore = False, SignedTransactions = []\<rparr> = (rsp, w1)"
    and "SetResponseBodyHandler client unmarshal rsp
           \<lparr>Method = MethodGet, URL = U @ ''?'' @ Encode query, ReqHeader = [], ReqBody = None\<rparr> w1 =
         (Inr resp, w2)"
    and "HasMore (heap w2 rsp)" "Revision (heap w2 rsp) \<noteq> []"
  shows "GetTransactionHistory_loop Encode unmarshal U client query responses w =
           GetTransactionHistory_loop Encode unmarshal U (SetResponseBodyHandler client unmarshal rsp)
             (Values_Set query ''revision'' (Revision (heap w2 rsp))) (responses @ [rsp]) w2"
  using assms by (subst GetTransactionHistory_loop.simps) auto

lemma GetTransactionHistory_loop_error:
  assumes "new w \<lparr>Revision = [], HasMore = False, SignedTransactions = []\<rparr> = (rsp, w1)"
    and "SetResponseBodyHandler client unmarshal rsp
           \<lparr>Method = MethodGet, URL = U @ ''?'' @ Encode query, ReqHeader = [], ReqBody = None\<rparr> w1 =
         (Inl err, w2)"
  shows "GetTransactionHistory_loop Encode unmarshal U client query responses w =
           Some (([], Some err), w2)"
  using assms by (subst GetTransactionHistory_loop.simps) auto

lemma GetRefundHistory_loop_stop:
  assumes "new w \<lparr>Refund_Revision = [], Refund_HasMore = False, Refund_SignedTransactions = []\<rparr> = (rsp, w1)"
    and "SetResponseBodyHandler client unmarshal rsp
           \<lparr>Method = MethodGet, URL = U, ReqHeader = [], ReqBody = None\<rparr> w1 = (Inr resp, w2)"
    and "\<not> Refund_HasMore (heap w2 rsp) \<or> Refund_Revision (heap w2 rsp) = []"
  shows "GetRefundHistory_loop Encode unmarshal baseURL client U responses w =
           Some ((responses @ [rsp], None), w2)"
  using assms by (subst GetRefundHistory_loop.simps) auto

lemma GetNotificationHistory_loop_stop:
  assumes "new w \<lparr>PaginationToken = [], Notification_HasMore = False, NotificationHistory = []\<rparr> = (rsp, w1)"
    and "SetResponseBodyHandler (SetRequestBodyJSON client body) unmarshal rsp
           \<lparr>Method = MethodPost, URL = U, ReqHeader = [], ReqBody = None\<rparr> w1 = (Inr resp, w2)"
    and "\<not> Notification_HasMore (heap w2 rsp) \<or> PaginationToken (heap w2 rsp) = []"
  shows "GetNotificationHistory_loop Encode unmarshal SetRequestBodyJSON body baseURL client U responses w =
           Some ((responses @ NotificationHistory (heap w2 rsp), None), w2)"
  using assms by (subst GetNotificationHistory_loop.simps) auto

text \<open>
  C10. In each of the three pagination loops, at any round: when the request of the round
  succeeds and the decoded response has \<^verbatim>\<open>hasMore\<close> true and an empty continuation
  token (the revision for \<^verbatim>\<open>GetTransactionHistory\<close> and \<^verbatim>\<open>GetRefundHistory\<close>, the
  pagination token for \<^verbatim>\<open>GetNotificationHistory\<close>), the loop returns at once: the
  result is what was collected before with this response appended, the error is nil, and
  the world is the one this request left, so no further request is sent.
\<close>

theorem pagination_stops_on_empty_token:
  "(new wT \<lparr>Revision = [], HasMore = False, SignedTransactions = []\<rparr> = (rspT, w1T) \<and>
    SetResponseBodyHandler clientT unmarshalT rspT
      \<lparr>Method = MethodGet, URL = urlT @ ''?'' @ EncodeT queryT, ReqHeader = [], ReqBody = None\<rparr> w1T =
      (Inr respT, w2T) \<and>
    HasMore (heap w2T rspT) \<and> Revision (heap w2T rspT) = [] \<longrightarrow>
    GetTransactionHistory_loop EncodeT unmarshalT urlT clientT queryT responsesT wT =
      Some ((responsesT @ [rspT], None), w2T))
   \<and> (new wR \<lparr>Refund_Revision = [], Refund_HasMore = False, Refund_SignedTransactions = []\<rparr> = (rspR, w1R) \<and>
    SetResponseBodyHandler clientR unmarshalR rspR
      \<lparr>Method = MethodGet, URL = urlR, ReqHeader = [], ReqBody = None\<rparr> w1R = (Inr respR, w2R) \<and>
    Refund_HasMore (heap w2R rspR) \<and> Refund_Revision (heap w2R rspR) = [] \<longrightarrow>
    GetRefundHistory_loop EncodeR unmarshalR baseR clientR urlR responsesR wR =
      Some ((responsesR @ [rspR], None), w2R))
   \<and> (new wN \<lparr>PaginationToken = [], Notification_HasMore = False, NotificationHistory = []\<rparr> = (rspN, w1N) \<and>
    SetResponseBodyHandler (SetRequestBodyJSON clientN bodyN) unmarshalN rspN
      \<lparr>Method = MethodPost, URL = urlN, ReqHeader = [], ReqBody = None\<rparr> w1N = (Inr respN, w2N) \<and>
    Notification_HasMore (heap w2N rspN) \<and> PaginationToken (heap w2N rspN) = [] \<longrightarrow>
    GetNotificationHistory_loop EncodeN unmarshalN SetRequestBodyJSON bodyN baseN clientN urlN responsesN wN =
      Some ((responsesN @ NotificationHistory (heap w2N rspN), None), w2N))"
proof (intro conjI impI)
  assume "new wT \<lparr>Revision = [], HasMore = False, SignedTransactions = []\<rparr> = (rspT, w1T) \<and>
    SetResponseBodyHandler clientT unmarshalT rspT
      \<lparr>Method = MethodGet, URL = urlT @ ''?'' @ EncodeT queryT, ReqHeader = [], ReqBody = None\<rparr> w1T =
      (Inr respT, w2T) \<and>
    HasMore (heap w2T rspT) \<and> Revision (heap w2T rspT) = []"
  then show "GetTransactionHistory_loop EncodeT unmarshalT urlT clientT queryT responsesT wT =
      Some ((responsesT @ [rspT], None), w2T)"
    by (intro GetTransactionHistory_loop_stop [of wT rspT w1T clientT unmarshalT urlT EncodeT queryT respT w2T]) simp_all
next
  assume "new wR \<lparr>Refund_Revision = [], Refund_HasMore = False, Refund_SignedTransactions = []\<rparr> = (rspR, w1R) \<and>
    SetResponseBodyHandler clientR unmarshalR rspR
      \<lparr>Method = MethodGet, URL = urlR, ReqHeader = [], ReqBody = None\<rparr> w1R = (Inr respR, w2R) \<and>
    Refund_HasMore (heap w2R rspR) \<and> Refund_Revision (heap w2R rspR) = []"
  then show "GetRefundHistory_loop EncodeR unmarshalR baseR clientR urlR responsesR wR =
      Some ((responsesR @ [rspR], None), w2R)"
    by (intro GetRefundHistory_loop_stop [of wR rspR w1R clientR unmarshalR urlR respR w2R]) simp_all
next
  assume "new wN \<lparr>PaginationToken = [], Notification_HasMore = False, NotificationHistory = []\<rparr> = (rspN, w1N) \<and>
    SetResponseBodyHandler (SetRequestBodyJSON clientN bodyN) unmarshalN rspN
      \<lparr>Method = MethodPost, URL = urlN, ReqHeader = [], ReqBody = None\<rparr> w1N = (Inr respN, w2N) \<and>
    Notification_HasMore (heap w2N rspN) \<and> PaginationToken (heap w2N rspN) = []"
  then show "GetNotificationHistory_loop EncodeN unmarshalN SetRequestBodyJSON bodyN baseN clientN urlN responsesN wN =
      Some ((responsesN @ NotificationHistory (heap w2N rspN), None), w2N)"
    by (intro GetNotificationHistory_loop_stop [of wN rspN w1N SetRequestBodyJSON clientN bodyN unmarshalN urlN respN w2N]) simp_all
qed

theorem pagination_stops_on_empty_token_witness:
  "(\<exists>w. GetTransactionHistory plain_Encode replace_all HostProduction
         (same_page_server \<lparr>Revision = [], HasMore = True, SignedTransactions = [''t1'']\<rparr>)
         ''42'' None (empty_world \<lparr>Revision = [], HasMore = False, SignedTransactions = []\<rparr>) =
        Some (([0], None), w) \<and> length (server w) = 1)
   \<and> (\<exists>w. GetRefundHistory plain_Encode replace_all HostProduction
         (same_page_server \<lparr>Refund_Revision = [], Refund_HasMore = True, Refund_SignedTransactions = [''t1'']\<rparr>)
         ''42'' (empty_world \<lparr>Refund_Revision = [], Refund_HasMore = False, Refund_SignedTransactions = []\<rparr>) =
        Some (([0], None), w) \<and> length (server w) = 1)
   \<and> (\<exists>w. GetNotificationHistory plain_Encode replace_all set_body HostProduction
         (same_page_server \<lparr>PaginationToken = [], Notification_HasMore = True, NotificationHistory = [''n1'', ''n2'']\<rparr>)
         ''body'' (empty_world \<lparr>PaginationToken = [], Notification_HasMore = False, NotificationHistory = []\<rparr>) =
        Some (([''n1'', ''n2''], None), w) \<and> length (server w) = 1)"
proof (intro conjI)
  let ?z = "\<lparr>Revision = [], HasMore = False, SignedTransactions = []\<rparr>"
  let ?pg = "\<lparr>Revision = [], HasMore = True, SignedTransactions = [''t1'']\<rparr>"
  let ?u = "HostProduction @ ''/inApps/v1/history/'' @ ''42''"
  let ?w1 = "snd (new (empty_world ?z) ?z)"
  let ?r = "SetResponseBodyHandler (same_page_server ?pg) replace_all 0
              \<lparr>Method = MethodGet, URL = ?u @ ''?'' @ plain_Encode [], ReqHeader = [], ReqBody = None\<rparr> ?w1"
  have 1: "new (empty_world ?z) ?z = (0, ?w1)"
    by (simp add: new_def empty_world_def)
  have 2: "?r = (Inr \<lparr>StatusCode = 200, Header = [], Body = (?pg, None)\<rparr>, snd ?r)"
    by (simp add: SetResponseBodyHandler_def same_page_server_def replace_all_def)
  have 3: "HasMore (heap (snd ?r) 0) \<and> Revision (heap (snd ?r) 0) = []"
    by (simp add: SetResponseBodyHandler_def same_page_server_def replace_all_def)
  have "GetTransactionHistory_loop plain_Encode replace_all ?u (same_page_server ?pg) [] [] (empty_world ?z) =
          Some (([] @ [0], None), snd ?r)"
    using pagination_stops_on_empty_token
      [where EncodeT = plain_Encode and queryT = "[]" and responsesT = "[]",
        THEN conjunct1, rule_format, OF conjI [OF 1 conjI [OF 2 3]]] .
  moreover have "length (server (snd ?r)) = 1"
    by (simp add: SetResponseBodyHandler_def same_page_server_def replace_all_def new_def empty_world_def)
  ultimately show "\<exists>w. GetTransactionHistory plain_Encode replace_all HostProduction
         (same_page_server ?pg) ''42'' None (empty_world ?z) = Some (([0], None), w) \<and> length (server w) = 1"
    by (simp add: GetTransactionHistory_def)
next
  let ?z = "\<lparr>Refund_Revision = [], Refund_HasMore = False, Refund_SignedTransactions = []\<rparr>"
  let ?pg = "\<lparr>Refund_Revision = [], Refund_HasMore = True, Refund_SignedTransactions = [''t1'']\<rparr>"
  let ?u = "HostProduction @ ''/inApps/v2/refund/lookup/'' @ ''42''"
  let ?w1 = "snd (new (empty_world ?z) ?z)"
  let ?r = "SetResponseBodyHandler (same_page_server ?pg) replace_all 0
              \<lparr>Method = MethodGet, URL = ?u, ReqHeader = [], ReqBody = None\<rparr> ?w1"
  have 1: "new (empty_world ?z) ?z = (0, ?w1)"
    by (simp add: new_def empty_world_def)
  have 2: "?r = (Inr \<lparr>StatusCode = 200, Header = [], Body = (?pg, None)\<rparr>, snd ?r)"
    by (simp add: SetResponseBodyHandler_def same_page_server_def replace_all_def)
  have 3: "Refund_HasMore (heap (snd ?r) 0) \<and> Refund_Revision (heap (snd ?r) 0) = []"
    by (simp add: SetResponseBodyHandler_def same_page_server_def replace_all_def)
  have "GetRefundHistory_loop plain_Encode replace_all ?u (same_page_server ?pg) ?u [] (empty_world ?z) =
          Some (([] @ [0], None), snd ?r)"
    using pagination_stops_on_empty_token
      [where EncodeR = plain_Encode and responsesR = "[]" and baseR = ?u,
        THEN conjunct2, THEN conjunct1, rule_format, OF conjI [OF 1 conjI [OF 2 3]]] .
  moreover have "length (server (snd ?r)) = 1"
    by (simp add: SetResponseBodyHandler_def same_page_server_def replace_all_def new_def empty_world_def)
  ultimately show "\<exists>w. GetRefundHistory plain_Encode replace_all HostProduction
         (same_page_server ?pg) ''42'' (empty_world ?z) = Some (([0], None), w) \<and> length (server w) = 1"
    by (simp add: GetRefundHistory_def)
next
  let ?z = "\<lparr>PaginationToken = [], Notification_HasMore = False, NotificationHistory = []\<rparr>"
  let ?pg = "\<lparr>PaginationToken = [], Notification_HasMore = True, NotificationHistory = [''n1'', ''n2'']\<rparr>"
  let ?u = "HostProduction @ ''/inApps/v1/notifications/history''"
  let ?w1 = "snd (new (empty_world ?z) ?z)"
  let ?r = "SetResponseBodyHandler (set_body (same_page_server ?pg) ''body'') replace_all 0
              \<lparr>Method = MethodPost, URL = ?u, ReqHeader = [], ReqBody = None\<rparr> ?w1"
  have 1: "new (empty_world ?z) ?z = (0, ?w1)"
    by (simp add: new_def empty_world_def)
  have 2: "?r = (Inr \<lparr>StatusCode = 200, Header = [], Body = (?pg, None)\<rparr>, snd ?r)"
    by (simp add: SetResponseBodyHandler_def same_page_server_def replace_all_def set_body_def)
  have 3: "Notification_HasMore (heap (snd ?r) 0) \<and> PaginationToken (heap (snd ?r) 0) = []"
    by (simp add: SetResponseBodyHandler_def same_page_server_def replace_all_def set_body_def)
  have "GetNotificationHistory_loop plain_Encode replace_all set_body ''body'' ?u (same_page_server ?pg) ?u []
          (empty_world ?z) = Some (([] @ NotificationHistory (heap (snd ?r) 0), None), snd ?r)"
    using pagination_stops_on_empty_token
      [where EncodeN = plain_Encode and responsesN = "[]" and baseN = ?u
         and SetRequestBodyJSON = set_body and clientN = "same_page_server ?pg" and bodyN = "''body''",
        THEN conjunct2, THEN conjunct2, rule_format, OF conjI [OF 1 conjI [OF 2 3]]] .
  moreover have "length (server (snd ?r)) = 1" "NotificationHistory (heap (snd ?r) 0) = [''n1'', ''n2'']"
    by (simp_all add: SetResponseBodyHandler_def same_page_server_def replace_all_def set_body_def
        new_def empty_world_def)
  ultimately show "\<exists>w. GetNotificationHistory plain_Encode replace_all set_body HostProduction
         (same_page_server ?pg) ''body'' (empty_world ?z) = Some (([''n1'', ''n2''], None), w) \<and>
         length (server w) = 1"
    by (simp add: GetNotificationHistory_def)
qed

text \<open>
  A client wrapped in two handlers decodes one response body into both destinations:
  the handler of an earlier round is still called in every later round.
\<close>

lemma stacked_handlers_decode_into_both:
  assumes "c req w = (Inr resp, w')" and "Body resp = (b, None)"
    and "p1 \<noteq> p2"
    and "unmarshal b (heap w' p1) = Inr v1" and "unmarshal b (heap w' p2) = Inr v2"
  shows "SetResponseBodyHandler (SetResponseBodyHandler c unmarshal p1) unmarshal p2 req w =
           (Inr resp, w'\<lparr>heap := (heap w')(p1 := v1, p2 := v2)\<rparr>)"
  using assms by (simp add: SetResponseBodyHandler_def)

text \<open>
  C8, at the scenario of the spec: the first response has \<^verbatim>\<open>hasMore\<close> true and
  revision \<open>r1\<close>, the response to the request with \<open>revision=r1\<close> has \<^verbatim>\<open>hasMore\<close>
  false. \<^verbatim>\<open>GetTransactionHistory\<close> returns with the nil error after exactly two
  requests, the second carrying the revision of the first response, and returns two
  pointers in the order of the requests. The client of the second round still holds the
  handler of the first, so the second body is decoded into the first struct too: when
  the call returns both pointers name structs that hold the second page, and the first
  page is lost.
\<close>

theorem GetTransactionHistory_first_page_overwritten:
  "\<exists>w. GetTransactionHistory plain_Encode replace_all HostProduction two_page_server ''42'' None
          (empty_world \<lparr>Revision = [], HasMore = False, SignedTransactions = []\<rparr>) =
        Some (([0, 1], None), w)
      \<and> server w = [''https://api.storekit.itunes.apple.com/inApps/v1/history/42?'',
                     ''https://api.storekit.itunes.apple.com/inApps/v1/history/42?revision=r1'']
      \<and> map (heap w) [0, 1] = [page2, page2]
      \<and> [page1, page2] \<noteq> [page2, page2]"
  unfolding GetTransactionHistory_def
  apply (subst GetTransactionHistory_loop.simps)
  apply (subst GetTransactionHistory_loop.simps)
  apply (simp add: new_def SetResponseBodyHandler_def two_page_server_def empty_world_def
      replace_all_def HostProduction_def MethodGet_def page1_def page2_def)
  done

end
